theory Spec2Isabelle
  imports Main
begin

section \<open>The bridge selector of \<open>python/bridge/debug_bridge.py\<close>\<close>

subsection \<open>Errors\<close>

text \<open>
  The error kinds of the bridge (none of them is defined or raised in
  \<open>debug_bridge.py\<close> itself), and the Python exceptions the selector's one
  expression can raise: reading an attribute of \<open>None\<close> and indexing an empty
  list. A constructor may raise a bridge error of its own.
\<close>

datatype bridge_error =
  ConfigurationError | TransportError | ProtocolError
  | OutOfRangeError | InvalidStateError | UnknownRegisterError

datatype py_exception = AttributeError | IndexError | Bridge_error bridge_error

subsection \<open>The configuration object\<close>

text \<open>
  The configuration tree is an external collaborator; the selector uses three of
  its methods. A node is modelled by what they answer: \<open>node.get(path)\<close> is a node
  or \<open>None\<close>, \<open>node.get_items()\<close> is an ordered dictionary from names to nodes,
  and \<open>node.get()\<close> is the scalar the node holds.
\<close>

datatype config =
  Config (get_node: "string \<Rightarrow> config option")
         (get_items: "(string \<times> config) list")
         (get_scalar: string)

text \<open>\<open>list(d.values())\<close> of an ordered dictionary.\<close>

definition dict_values :: "('k \<times> 'v) list \<Rightarrow> 'v list" where
  "dict_values d = map snd d"

subsection \<open>The bridge classes and \<open>get_bridge\<close>\<close>

text \<open>
  The four classes the selector chooses from: \<open>gap.gap_debug_bridge\<close>,
  \<open>fulmine.fulmine_debug_bridge\<close>, \<open>wolfe.wolfe_debug_bridge\<close> and the generic
  \<open>debug_bridge\<close> of \<open>bridge.default_debug_bridge\<close>.
\<close>

datatype bridge_class =
  gap_debug_bridge | fulmine_debug_bridge | wolfe_debug_bridge | debug_bridge

text \<open>
  Line 28:
  \<^verbatim>\<open>chip = list(config.get('**/pulp_chip').get_items().values())[0].get('name').get()\<close>
\<close>

definition chip_name :: "config \<Rightarrow> py_exception + string" where
  "chip_name config =
     (case get_node config ''**/pulp_chip'' of
        None \<Rightarrow> Inl AttributeError
      | Some pulp_chip \<Rightarrow>
          (case dict_values (get_items pulp_chip) of
             [] \<Rightarrow> Inl IndexError
           | first # _ \<Rightarrow>
               (case get_node first ''name'' of
                  None \<Rightarrow> Inl AttributeError
                | Some name \<Rightarrow> Inr (get_scalar name))))"

text \<open>
  \<open>get_bridge(config, binaries, verbose)\<close>. Calling a class constructs an
  object; the constructors are not in this file, so the call is the parameter
  \<open>construct\<close>, which may raise and may change the world \<open>w\<close> it runs in.
\<close>

definition get_bridge ::
  "(bridge_class \<Rightarrow> config \<Rightarrow> 'b \<Rightarrow> bool \<Rightarrow> 'w \<Rightarrow> (py_exception + 'h) \<times> 'w)
    \<Rightarrow> config \<Rightarrow> 'b \<Rightarrow> bool \<Rightarrow> 'w \<Rightarrow> (py_exception + 'h) \<times> 'w" where
  "get_bridge construct config binaries verbose w =
     (case chip_name config of
        Inl e \<Rightarrow> (Inl e, w)
      | Inr chip \<Rightarrow>
          (let bridge_class =
                 (if chip = ''gap'' then gap_debug_bridge
                  else if chip = ''fulmine'' then fulmine_debug_bridge
                  else if chip = ''wolfe'' then wolfe_debug_bridge
                  else debug_bridge)
           in construct bridge_class config binaries verbose w))"

subsection \<open>The registry the specification describes\<close>

text \<open>
  The specification's words for the selection: a registry from chip identities
  to factories, and \<open>resolve\<close>, which returns the registered factory or, if
  absent, the generic one.
\<close>

definition registry :: "(string \<times> bridge_class) list" where
  "registry =
     [(''gap'', gap_debug_bridge),
      (''fulmine'', fulmine_debug_bridge),
      (''wolfe'', wolfe_debug_bridge)]"

definition resolve :: "string \<Rightarrow> bridge_class" where
  "resolve identity =
     (case map_of registry identity of Some factory \<Rightarrow> factory | None \<Rightarrow> debug_bridge)"

subsection \<open>Omitted arguments and the default list\<close>

text \<open>
  \<^verbatim>\<open>def get_bridge(config, binaries=[], verbose=False):\<close>
  Python evaluates the default expressions once, when the \<open>def\<close> statement runs,
  and keeps the values in the function object. \<open>[]\<close> allocates a list, so the
  stored default is a reference into the store of list objects; a call that
  omits an argument is handed the stored value.
\<close>

type_synonym ref = nat

record 'a heap =
  cells :: "ref \<Rightarrow> 'a list option"
  next_ref :: ref

definition new_list :: "'a list \<Rightarrow> 'a heap \<Rightarrow> ref \<times> 'a heap" where
  "new_list xs hp =
     (next_ref hp, hp\<lparr>cells := (cells hp)(next_ref hp \<mapsto> xs), next_ref := Suc (next_ref hp)\<rparr>)"

text \<open>\<open>xs.append(x)\<close> through a reference to \<open>xs\<close>.\<close>

definition list_append :: "ref \<Rightarrow> 'a \<Rightarrow> 'a heap \<Rightarrow> 'a heap" where
  "list_append r x hp =
     (case cells hp r of
        None \<Rightarrow> hp
      | Some xs \<Rightarrow> hp\<lparr>cells := (cells hp)(r \<mapsto> xs @ [x])\<rparr>)"

record function_defaults =
  default_binaries :: ref
  default_verbose :: bool

text \<open>Running the \<open>def\<close> statement of line 25.\<close>

definition def_get_bridge :: "'a heap \<Rightarrow> function_defaults \<times> 'a heap" where
  "def_get_bridge hp =
     (let (r, hp') = new_list [] hp
      in (\<lparr>default_binaries = r, default_verbose = False\<rparr>, hp'))"

text \<open>A call of the defined function; \<open>None\<close> is an argument the caller omits.\<close>

definition call_get_bridge ::
  "function_defaults
    \<Rightarrow> (bridge_class \<Rightarrow> config \<Rightarrow> ref \<Rightarrow> bool \<Rightarrow> 'w \<Rightarrow> (py_exception + 'h) \<times> 'w)
    \<Rightarrow> config \<Rightarrow> ref option \<Rightarrow> bool option \<Rightarrow> 'w \<Rightarrow> (py_exception + 'h) \<times> 'w" where
  "call_get_bridge defaults construct config binaries verbose w =
     get_bridge construct config
       (case binaries of None \<Rightarrow> default_binaries defaults | Some b \<Rightarrow> b)
       (case verbose of None \<Rightarrow> default_verbose defaults | Some v \<Rightarrow> v)
       w"

subsection \<open>Counting constructor calls\<close>

text \<open>
  A constructor wrapped so that every call of it is written, with the
  arguments it received, to a log kept beside the world.
\<close>

definition logged ::
  "(bridge_class \<Rightarrow> config \<Rightarrow> 'b \<Rightarrow> bool \<Rightarrow> 'w \<Rightarrow> (py_exception + 'h) \<times> 'w)
    \<Rightarrow> bridge_class \<Rightarrow> config \<Rightarrow> 'b \<Rightarrow> bool
    \<Rightarrow> (bridge_class \<times> config \<times> 'b \<times> bool) list \<times> 'w
    \<Rightarrow> (py_exception + 'h) \<times> (bridge_class \<times> config \<times> 'b \<times> bool) list \<times> 'w" where
  "logged construct cls config binaries verbose lw =
     (case lw of (calls, w) \<Rightarrow>
        (case construct cls config binaries verbose w of
           (r, w') \<Rightarrow> (r, calls @ [(cls, config, binaries, verbose)], w')))"

section \<open>The bridge handle and its capability contract\<close>

subsection \<open>Handles and their construction\<close>

text \<open>
  Modelled from the spec: the states of the capability contract (the classes
  that keep them are not among the sources): unattached, attached with the
  target stopped or running, and detached, which is terminal.
\<close>

datatype run_state = Stopped | Running

datatype bridge_state = Unattached | Attached run_state | Detached

text \<open>
  Modelled from the spec: the handle the selector returns (an object of one of
  the four classes, none of them among the sources): the class implementing
  it, the three arguments it was constructed from, and its state.
\<close>

record 'b bridge_handle =
  impl :: bridge_class
  handle_config :: config
  handle_binaries :: 'b
  handle_verbose :: bool
  state :: bridge_state

text \<open>
  Modelled from the spec: the constructors of the four bridge classes
  (\<open>bridge/default_debug_bridge.py\<close> and \<open>bridge/chips/*.py\<close> are not among the
  sources). The factory is invoked with \<open>(config, binaries, verbose)\<close> and
  returns the constructed, unattached handle; construction has no other effect
  and does not attach to hardware.
\<close>

definition new_bridge ::
  "bridge_class \<Rightarrow> config \<Rightarrow> 'b \<Rightarrow> bool \<Rightarrow> 'w \<Rightarrow> (py_exception + 'b bridge_handle) \<times> 'w" where
  "new_bridge cls config binaries verbose w =
     (Inr \<lparr>impl = cls, handle_config = config, handle_binaries = binaries,
           handle_verbose = verbose, state = Unattached\<rparr>, w)"

subsection \<open>The chip description and the transport\<close>

text \<open>
  Modelled from the spec: what a chip-specific bridge supplies to the shared
  skeleton (the memory map used by the bounds check of \<open>load\<close>, the declared
  register set, and whether memory and registers may be accessed while the
  target runs). The tables themselves are data and stay parameters. A region of
  the memory map is a pair \<open>(lo, hi)\<close> of its first address and its bound.
\<close>

record chip_desc =
  memory_map :: "(nat \<times> nat) list"
  register_set :: "nat list"
  live_access :: bool

text \<open>
  Modelled from the spec: the transport handle, an external byte pipe. The
  model keeps the list of commands put on the wire, in order; what the link
  answers to a command, given what went before, is the parameter \<open>link\<close>:
  an acknowledgement with data, a malformed response, or a failure of the link.
\<close>

datatype tx =
  Tx_open | Tx_handshake | Tx_write nat "nat list" | Tx_read nat nat
  | Tx_resume | Tx_halt | Tx_step | Tx_read_reg nat | Tx_write_reg nat nat | Tx_close

datatype reply = Ack "nat list" | Malformed | Failed

type_synonym link = "tx list \<Rightarrow> tx \<Rightarrow> reply"

text \<open>
  Modelled from the spec: the error an answer of the link stands for
  (\<open>ProtocolError\<close> for a malformed response, \<open>TransportError\<close> for a link
  failure), and the data an acknowledgement carries.
\<close>

fun reply_error :: "reply \<Rightarrow> bridge_error option" where
  "reply_error (Ack _) = None"
| "reply_error Malformed = Some ProtocolError"
| "reply_error Failed = Some TransportError"

fun reply_data :: "reply \<Rightarrow> nat list" where
  "reply_data (Ack d) = d"
| "reply_data _ = []"

text \<open>
  Modelled from the spec: a command is put on the wire and the link's answer
  decides whether the operation goes on. \<open>k\<close> is what the operation does after
  an acknowledgement.
\<close>

definition transact ::
  "link \<Rightarrow> tx \<Rightarrow> 'h \<Rightarrow> tx list \<Rightarrow> (nat list \<Rightarrow> 'a \<times> 'h) \<Rightarrow> (bridge_error + 'a) \<times> 'h \<times> tx list" where
  "transact link c h t k =
     (case reply_error (link t c) of
        Some e \<Rightarrow> (Inl e, h, t @ [c])
      | None \<Rightarrow> (case k (reply_data (link t c)) of (a, h') \<Rightarrow> (Inr a, h', t @ [c])))"

subsection \<open>The operations\<close>

text \<open>
  Modelled from the spec: the operations of the capability contract, over the
  handle and the wire. Every operation first checks the state of the handle
  (the shared skeleton's validation ordering), then its arguments, and only
  then uses the transport; an operation that fails leaves the state as it was.

  \<open>attach\<close>: \<open>Unattached\<close> to \<open>Attached\<close>, the target starting \<open>Stopped\<close>;
  \<open>TransportError\<close> if the link cannot be established, \<open>ProtocolError\<close> if the
  handshake response is malformed.
\<close>

definition attach ::
  "link \<Rightarrow> 'b bridge_handle \<Rightarrow> tx list \<Rightarrow> (bridge_error + unit) \<times> 'b bridge_handle \<times> tx list" where
  "attach link h t =
     (case state h of
        Unattached \<Rightarrow>
          (case link t Tx_open of
             Ack _ \<Rightarrow>
               transact link Tx_handshake h (t @ [Tx_open])
                 (\<lambda>_. ((), h\<lparr>state := Attached Stopped\<rparr>))
           | _ \<Rightarrow> (Inl TransportError, h, t @ [Tx_open]))
      | _ \<Rightarrow> (Inl InvalidStateError, h, t))"

text \<open>
  Modelled from the spec: an image is a (load-address, byte-image, entry-point)
  triple; it fits when its address range lies within a region of the declared
  memory map.
\<close>

type_synonym image = "nat \<times> nat list \<times> nat"

definition in_bounds :: "(nat \<times> nat) list \<Rightarrow> nat \<Rightarrow> nat \<Rightarrow> bool" where
  "in_bounds mm addr n = list_ex (\<lambda>(lo, hi). lo \<le> addr \<and> addr + n \<le> hi) mm"

text \<open>
  Modelled from the spec: \<open>load\<close>, valid only when attached: for each image,
  validates the address range against the chip memory map, then streams the
  bytes. \<open>OutOfRangeError\<close> if an image does not fit; on an I/O failure the
  load stops and what was written stays written.
\<close>

fun load_images :: "chip_desc \<Rightarrow> link \<Rightarrow> image list \<Rightarrow> tx list \<Rightarrow> bridge_error option \<times> tx list" where
  "load_images chip link [] t = (None, t)"
| "load_images chip link ((addr, bytes, entry) # rest) t =
     (if \<not> in_bounds (memory_map chip) addr (length bytes) then (Some OutOfRangeError, t)
      else (case reply_error (link t (Tx_write addr bytes)) of
              Some e \<Rightarrow> (Some e, t @ [Tx_write addr bytes])
            | None \<Rightarrow> load_images chip link rest (t @ [Tx_write addr bytes])))"

definition load ::
  "chip_desc \<Rightarrow> link \<Rightarrow> image list \<Rightarrow> 'b bridge_handle \<Rightarrow> tx list
    \<Rightarrow> (bridge_error + unit) \<times> 'b bridge_handle \<times> tx list" where
  "load chip link binaries h t =
     (case state h of
        Attached _ \<Rightarrow>
          (case load_images chip link binaries t of
             (None, t') \<Rightarrow> (Inr (), h, t')
           | (Some e, t') \<Rightarrow> (Inl e, h, t'))
      | _ \<Rightarrow> (Inl InvalidStateError, h, t))"

text \<open>
  Modelled from the spec: \<open>run\<close>, from \<open>Stopped\<close> to \<open>Running\<close>, releasing the
  cores from halt; a no-op that succeeds trivially if already \<open>Running\<close>.
\<close>

definition run ::
  "link \<Rightarrow> 'b bridge_handle \<Rightarrow> tx list \<Rightarrow> (bridge_error + unit) \<times> 'b bridge_handle \<times> tx list" where
  "run link h t =
     (case state h of
        Attached Running \<Rightarrow> (Inr (), h, t)
      | Attached Stopped \<Rightarrow>
          transact link Tx_resume h t (\<lambda>_. ((), h\<lparr>state := Attached Running\<rparr>))
      | _ \<Rightarrow> (Inl InvalidStateError, h, t))"

text \<open>
  Modelled from the spec: \<open>stop\<close>, from \<open>Running\<close> to \<open>Stopped\<close>, halting the
  cores; a no-op if already \<open>Stopped\<close>.
\<close>

definition stop ::
  "link \<Rightarrow> 'b bridge_handle \<Rightarrow> tx list \<Rightarrow> (bridge_error + unit) \<times> 'b bridge_handle \<times> tx list" where
  "stop link h t =
     (case state h of
        Attached Stopped \<Rightarrow> (Inr (), h, t)
      | Attached Running \<Rightarrow>
          transact link Tx_halt h t (\<lambda>_. ((), h\<lparr>state := Attached Stopped\<rparr>))
      | _ \<Rightarrow> (Inl InvalidStateError, h, t))"

text \<open>
  Modelled from the spec: \<open>step\<close>, valid only in \<open>Stopped\<close>: executes one
  instruction and returns to \<open>Stopped\<close>; \<open>InvalidStateError\<close> otherwise.
\<close>

definition step ::
  "link \<Rightarrow> 'b bridge_handle \<Rightarrow> tx list \<Rightarrow> (bridge_error + unit) \<times> 'b bridge_handle \<times> tx list" where
  "step link h t =
     (case state h of
        Attached Stopped \<Rightarrow> transact link Tx_step h t (\<lambda>_. ((), h))
      | _ \<Rightarrow> (Inl InvalidStateError, h, t))"

text \<open>
  Modelled from the spec: the state rule of memory and register access, valid
  in any attached state unless the chip restricts it to \<open>Stopped\<close>.
\<close>

definition access_allowed :: "chip_desc \<Rightarrow> bridge_state \<Rightarrow> bool" where
  "access_allowed chip s =
     (case s of
        Attached Stopped \<Rightarrow> True
      | Attached Running \<Rightarrow> live_access chip
      | _ \<Rightarrow> False)"

text \<open>
  Modelled from the spec: \<open>read_memory(addr, len)\<close> and
  \<open>write_memory(addr, bytes)\<close>, failing with \<open>InvalidStateError\<close> where the
  state rule forbids the access.
\<close>

definition read_memory ::
  "chip_desc \<Rightarrow> link \<Rightarrow> nat \<Rightarrow> nat \<Rightarrow> 'b bridge_handle \<Rightarrow> tx list
    \<Rightarrow> (bridge_error + nat list) \<times> 'b bridge_handle \<times> tx list" where
  "read_memory chip link addr len h t =
     (if \<not> access_allowed chip (state h) then (Inl InvalidStateError, h, t)
      else transact link (Tx_read addr len) h t (\<lambda>d. (d, h)))"

definition write_memory ::
  "chip_desc \<Rightarrow> link \<Rightarrow> nat \<Rightarrow> nat list \<Rightarrow> 'b bridge_handle \<Rightarrow> tx list
    \<Rightarrow> (bridge_error + unit) \<times> 'b bridge_handle \<times> tx list" where
  "write_memory chip link addr bytes h t =
     (if \<not> access_allowed chip (state h) then (Inl InvalidStateError, h, t)
      else transact link (Tx_write addr bytes) h t (\<lambda>_. ((), h)))"

text \<open>
  Modelled from the spec: \<open>read_register(id)\<close> and \<open>write_register(id, value)\<close>,
  with the state rule of memory access; the register id is validated against
  the chip's declared register set, failing with \<open>UnknownRegisterError\<close>
  otherwise, before the transport is used.
\<close>

definition read_register ::
  "chip_desc \<Rightarrow> link \<Rightarrow> nat \<Rightarrow> 'b bridge_handle \<Rightarrow> tx list
    \<Rightarrow> (bridge_error + nat list) \<times> 'b bridge_handle \<times> tx list" where
  "read_register chip link reg h t =
     (if \<not> access_allowed chip (state h) then (Inl InvalidStateError, h, t)
      else if \<not> List.member (register_set chip) reg then (Inl UnknownRegisterError, h, t)
      else transact link (Tx_read_reg reg) h t (\<lambda>d. (d, h)))"

definition write_register ::
  "chip_desc \<Rightarrow> link \<Rightarrow> nat \<Rightarrow> nat \<Rightarrow> 'b bridge_handle \<Rightarrow> tx list
    \<Rightarrow> (bridge_error + unit) \<times> 'b bridge_handle \<times> tx list" where
  "write_register chip link reg v h t =
     (if \<not> access_allowed chip (state h) then (Inl InvalidStateError, h, t)
      else if \<not> List.member (register_set chip) reg then (Inl UnknownRegisterError, h, t)
      else transact link (Tx_write_reg reg v) h t (\<lambda>_. ((), h)))"

text \<open>
  Modelled from the spec: \<open>detach\<close>, from any state to \<open>Detached\<close>, releasing
  the transport if the handle holds it; a no-op once \<open>Detached\<close>.
\<close>

definition detach ::
  "'b bridge_handle \<Rightarrow> tx list \<Rightarrow> (bridge_error + unit) \<times> 'b bridge_handle \<times> tx list" where
  "detach h t =
     (case state h of
        Detached \<Rightarrow> (Inr (), h, t)
      | Unattached \<Rightarrow> (Inr (), h\<lparr>state := Detached\<rparr>, t)
      | Attached _ \<Rightarrow> (Inr (), h\<lparr>state := Detached\<rparr>, t @ [Tx_close]))"

section \<open>Concrete configurations, chips and links\<close>

text \<open>
  A scalar node, a chip entry declaring a name, an entry with no name field,
  and a configuration whose \<open>**/pulp_chip\<close> query answers a node with the given
  items (or answers \<open>None\<close>).
\<close>

definition scalar_node :: "string \<Rightarrow> config" where
  "scalar_node s = Config (\<lambda>_. None) [] s"

definition chip_entry :: "string \<Rightarrow> config" where
  "chip_entry s =
     Config (\<lambda>p. if p = ''name'' then Some (scalar_node s) else None)
       [(''name'', scalar_node s)] []"

definition nameless_entry :: config where
  "nameless_entry = Config (\<lambda>_. None) [] []"

definition system_config :: "(string \<times> config) list \<Rightarrow> config" where
  "system_config entries =
     Config (\<lambda>p. if p = ''**/pulp_chip'' then Some (Config (\<lambda>_. None) entries []) else None)
       [] []"

definition chipless_config :: config where
  "chipless_config = Config (\<lambda>_. None) [] []"

text \<open>
  A chip with memory bound \<open>0x2000\<close> and registers 0 to 31, a link that
  acknowledges every command, and a link that is down.
\<close>

definition small_chip :: chip_desc where
  "small_chip = \<lparr>memory_map = [(0, 8192)], register_set = [0..<32], live_access = False\<rparr>"

definition steady_link :: link where
  "steady_link t c = Ack []"

definition dead_link :: link where
  "dead_link t c = Failed"

definition empty_heap :: "'a heap" where
  "empty_heap = \<lparr>cells = (\<lambda>_. None), next_ref = 0\<rparr>"

section \<open>Properties of the selector\<close>

subsection \<open>Shared facts\<close>

lemma resolve_chain:
  "resolve chip =
     (if chip = ''gap'' then gap_debug_bridge
      else if chip = ''fulmine'' then fulmine_debug_bridge
      else if chip = ''wolfe'' then wolfe_debug_bridge
      else debug_bridge)"
  by (simp add: resolve_def registry_def)

lemma get_bridge_of_chip:
  "chip_name config = Inr chip \<Longrightarrow>
   get_bridge construct config binaries verbose w =
     construct (resolve chip) config binaries verbose w"
  by (simp add: get_bridge_def resolve_chain)

lemma get_bridge_of_error:
  "chip_name config = Inl e \<Longrightarrow> get_bridge construct config binaries verbose w = (Inl e, w)"
  by (simp add: get_bridge_def)

lemma chip_name_system_config:
  "chip_name (system_config ((k, chip_entry s) # rest)) = Inr s"
  by (simp add: chip_name_def system_config_def chip_entry_def scalar_node_def dict_values_def)

lemma chip_name_cases:
  "chip_name config =
     (case get_node config ''**/pulp_chip'' of
        None \<Rightarrow> Inl AttributeError
      | Some n \<Rightarrow>
          (case get_items n of
             [] \<Rightarrow> Inl IndexError
           | (k, first) # rest \<Rightarrow>
               (case get_node first ''name'' of
                  None \<Rightarrow> Inl AttributeError
                | Some nm \<Rightarrow> Inr (get_scalar nm))))"
  by (simp add: chip_name_def dict_values_def split: option.splits list.splits)

lemma chip_name_no_bridge_error: "chip_name config \<noteq> Inl (Bridge_error e)"
  by (simp add: chip_name_cases split: option.splits list.splits)

lemma def_get_bridge_result:
  assumes "def_get_bridge hp = (defaults, hp')"
  shows "default_binaries defaults = next_ref hp"
    and "default_verbose defaults = False"
    and "cells hp' (next_ref hp) = Some []"
  using assms by (auto simp: def_get_bridge_def new_list_def)

lemma default_call_new_bridge:
  assumes "call_get_bridge defaults new_bridge config None verbose w = (Inr b, w')"
  shows "handle_binaries b = default_binaries defaults" and "w' = w"
proof -
  from assms have g: "get_bridge new_bridge config (default_binaries defaults)
      (case verbose of None \<Rightarrow> default_verbose defaults | Some v \<Rightarrow> v) w = (Inr b, w')"
    by (simp add: call_get_bridge_def)
  then obtain chip where c: "chip_name config = Inr chip"
    by (cases "chip_name config") (auto simp: get_bridge_of_error)
  from g show "handle_binaries b = default_binaries defaults"
    by (auto simp: get_bridge_of_chip [OF c] new_bridge_def)
  from g show "w' = w"
    by (auto simp: get_bridge_of_chip [OF c] new_bridge_def)
qed

subsection \<open>Resolution of the chip identity\<close>

text \<open>
  Claim C1. Once line 28 has produced a chip name, \<open>get_bridge\<close> returns what the
  constructor of the correspondingly named class returns for \<open>''gap''\<close>,
  \<open>''fulmine''\<close> and \<open>''wolfe''\<close>, and what the constructor of the generic
  \<open>debug_bridge\<close> returns for every other string. The \<open>if\<close> chain of the source
  is the specification's \<open>resolve\<close> over the registry of the three chips with the
  generic fallback, so a class is selected for every chip name: the selection
  itself cannot fail.
\<close>

theorem get_bridge_resolves_chip:
  assumes "chip_name config = Inr chip"
  shows "(chip = ''gap'' \<longrightarrow>
            get_bridge construct config binaries verbose w =
              construct gap_debug_bridge config binaries verbose w)
       \<and> (chip = ''fulmine'' \<longrightarrow>
            get_bridge construct config binaries verbose w =
              construct fulmine_debug_bridge config binaries verbose w)
       \<and> (chip = ''wolfe'' \<longrightarrow>
            get_bridge construct config binaries verbose w =
              construct wolfe_debug_bridge config binaries verbose w)
       \<and> (chip \<notin> {''gap'', ''fulmine'', ''wolfe''} \<longrightarrow>
            get_bridge construct config binaries verbose w =
              construct debug_bridge config binaries verbose w)
       \<and> get_bridge construct config binaries verbose w =
            construct (resolve chip) config binaries verbose w"
  using assms by (simp add: get_bridge_def resolve_chain)

theorem get_bridge_resolves_chip_witness:
  "chip_name (system_config [(''gap'', chip_entry ''gap'')]) = Inr ''gap''
   \<and> get_bridge new_bridge (system_config [(''gap'', chip_entry ''gap'')]) ([] :: image list) False ()
       = new_bridge gap_debug_bridge (system_config [(''gap'', chip_entry ''gap'')]) [] False ()
   \<and> chip_name (system_config [(''soc'', chip_entry ''unknown-chip-123'')]) = Inr ''unknown-chip-123''
   \<and> get_bridge new_bridge (system_config [(''soc'', chip_entry ''unknown-chip-123'')]) ([] :: image list) True ()
       = new_bridge debug_bridge (system_config [(''soc'', chip_entry ''unknown-chip-123'')]) [] True ()"
  using get_bridge_resolves_chip
          [of "system_config [(''gap'', chip_entry ''gap'')]" "''gap''"
              new_bridge "[] :: image list" False "()"]
        get_bridge_resolves_chip
          [of "system_config [(''soc'', chip_entry ''unknown-chip-123'')]" "''unknown-chip-123''"
              new_bridge "[] :: image list" True "()"]
  by (simp add: chip_name_system_config)

subsection \<open>Configurations with no, several or unnamed chip entries\<close>

text \<open>
  Claim C2, as stated, fails: \<open>get_bridge\<close> raises no \<open>ConfigurationError\<close>.
  With two entries under the chip node it constructs the bridge of the first
  one; with an empty chip name it constructs the generic bridge; with no chip
  node (the lookup answering \<open>None\<close>) or no name field it fails with
  \<open>AttributeError\<close>, and with a chip node that has no entries it fails with
  \<open>IndexError\<close>.
\<close>

theorem get_bridge_configuration_error_counterexample:
  "get_bridge new_bridge
      (system_config [(''gap'', chip_entry ''gap''), (''wolfe'', chip_entry ''wolfe'')])
      ([] :: image list) False ()
    = new_bridge gap_debug_bridge
        (system_config [(''gap'', chip_entry ''gap''), (''wolfe'', chip_entry ''wolfe'')])
        [] False ()
   \<and> get_bridge new_bridge (system_config [(''chip'', chip_entry [])]) ([] :: image list) False ()
    = new_bridge debug_bridge (system_config [(''chip'', chip_entry [])]) [] False ()
   \<and> (get_bridge new_bridge chipless_config ([] :: image list) False ()
         :: (py_exception + image list bridge_handle) \<times> unit)
    = (Inl AttributeError, ())
   \<and> (get_bridge new_bridge (system_config []) ([] :: image list) False ()
         :: (py_exception + image list bridge_handle) \<times> unit)
    = (Inl IndexError, ())
   \<and> (get_bridge new_bridge (system_config [(''chip'', nameless_entry)]) ([] :: image list) False ()
         :: (py_exception + image list bridge_handle) \<times> unit)
    = (Inl AttributeError, ())"
  by (simp add: get_bridge_def chip_name_def dict_values_def system_config_def chip_entry_def
        scalar_node_def nameless_entry_def chipless_config_def)

text \<open>
  Claim C2, amended. \<open>get_bridge\<close> does not validate the configuration. If the
  lookup of \<open>**/pulp_chip\<close> or of the first entry's \<open>name\<close> field answers
  \<open>None\<close>, it fails with \<open>AttributeError\<close>; if the chip node has no entries, it
  fails with \<open>IndexError\<close>; in both cases nothing is constructed and the world
  is unchanged. If the node has one entry or more, the first is used whatever
  follows it, and an empty chip name selects the generic \<open>debug_bridge\<close>. A
  bridge error such as \<open>ConfigurationError\<close> can only come out of the selected
  constructor.
\<close>

theorem get_bridge_unvalidated_configuration:
  "(get_node config ''**/pulp_chip'' = None \<longrightarrow>
      get_bridge construct config binaries verbose w = (Inl AttributeError, w))
   \<and> (get_node config ''**/pulp_chip'' = Some n \<and> get_items n = [] \<longrightarrow>
      get_bridge construct config binaries verbose w = (Inl IndexError, w))
   \<and> (get_node config ''**/pulp_chip'' = Some n \<and> get_items n = (k, first) # rest
        \<and> get_node first ''name'' = None \<longrightarrow>
      get_bridge construct config binaries verbose w = (Inl AttributeError, w))
   \<and> (get_node config ''**/pulp_chip'' = Some n \<and> get_items n = (k, first) # rest
        \<and> get_node first ''name'' = Some nm \<longrightarrow>
      get_bridge construct config binaries verbose w =
        construct (resolve (get_scalar nm)) config binaries verbose w)
   \<and> (get_node config ''**/pulp_chip'' = Some n \<and> get_items n = (k, first) # rest
        \<and> get_node first ''name'' = Some nm \<and> get_scalar nm = [] \<longrightarrow>
      get_bridge construct config binaries verbose w =
        construct debug_bridge config binaries verbose w)
   \<and> (fst (get_bridge construct config binaries verbose w) = Inl (Bridge_error e) \<longrightarrow>
      (\<exists>chip. chip_name config = Inr chip
         \<and> fst (construct (resolve chip) config binaries verbose w) = Inl (Bridge_error e)))"
proof -
  have bridge_error_from_constructor:
    "fst (get_bridge construct config binaries verbose w) = Inl (Bridge_error e) \<longrightarrow>
      (\<exists>chip. chip_name config = Inr chip
         \<and> fst (construct (resolve chip) config binaries verbose w) = Inl (Bridge_error e))"
  proof (cases "chip_name config")
    case (Inl x)
    then show ?thesis
      using chip_name_no_bridge_error [of config e] by (auto simp: get_bridge_of_error)
  next
    case (Inr chip)
    then show ?thesis by (simp add: get_bridge_of_chip)
  qed
  have no_node: "get_node config ''**/pulp_chip'' = None \<longrightarrow>
      get_bridge construct config binaries verbose w = (Inl AttributeError, w)"
    by (simp add: get_bridge_def chip_name_cases)
  have no_items: "get_node config ''**/pulp_chip'' = Some n \<and> get_items n = [] \<longrightarrow>
      get_bridge construct config binaries verbose w = (Inl IndexError, w)"
    by (simp add: get_bridge_def chip_name_cases)
  have no_name: "get_node config ''**/pulp_chip'' = Some n \<and> get_items n = (k, first) # rest
        \<and> get_node first ''name'' = None \<longrightarrow>
      get_bridge construct config binaries verbose w = (Inl AttributeError, w)"
    by (simp add: get_bridge_def chip_name_cases)
  have first_used: "get_node config ''**/pulp_chip'' = Some n \<and> get_items n = (k, first) # rest
        \<and> get_node first ''name'' = Some nm \<longrightarrow>
      get_bridge construct config binaries verbose w =
        construct (resolve (get_scalar nm)) config binaries verbose w"
    by (simp add: get_bridge_def chip_name_cases resolve_chain)
  have empty_name: "get_node config ''**/pulp_chip'' = Some n \<and> get_items n = (k, first) # rest
        \<and> get_node first ''name'' = Some nm \<and> get_scalar nm = [] \<longrightarrow>
      get_bridge construct config binaries verbose w =
        construct debug_bridge config binaries verbose w"
    by (simp add: get_bridge_def chip_name_cases)
  from no_node no_items no_name first_used empty_name bridge_error_from_constructor
  show ?thesis by blast
qed

theorem get_bridge_unvalidated_configuration_witness:
  "get_bridge new_bridge
      (system_config [(''gap'', chip_entry ''gap''), (''wolfe'', chip_entry ''wolfe'')])
      ([] :: image list) False ()
    = new_bridge (resolve ''gap'')
        (system_config [(''gap'', chip_entry ''gap''), (''wolfe'', chip_entry ''wolfe'')])
        [] False ()
   \<and> (get_bridge new_bridge (system_config []) ([] :: image list) False ()
         :: (py_exception + image list bridge_handle) \<times> unit)
    = (Inl IndexError, ())"
  using get_bridge_unvalidated_configuration
          [of "system_config [(''gap'', chip_entry ''gap''), (''wolfe'', chip_entry ''wolfe'')]"
              new_bridge "[] :: image list" False "()"
              "Config (\<lambda>_. None) [(''gap'', chip_entry ''gap''), (''wolfe'', chip_entry ''wolfe'')] []"
              "''gap''" "chip_entry ''gap''" "[(''wolfe'', chip_entry ''wolfe'')]"
              "scalar_node ''gap''" ConfigurationError]
        get_bridge_unvalidated_configuration
          [of "system_config []"
              "new_bridge :: bridge_class \<Rightarrow> config \<Rightarrow> image list \<Rightarrow> bool \<Rightarrow> unit \<Rightarrow> (py_exception + image list bridge_handle) \<times> unit"
              "[] :: image list" False "()"
              "Config (\<lambda>_. None) [] []"
              "''gap''" "chip_entry ''gap''" "[]"
              "scalar_node ''gap''" ConfigurationError]
  by (simp add: system_config_def chip_entry_def scalar_node_def)

subsection \<open>Selection depends on the chip name only\<close>

text \<open>
  Claim C3. For two configurations from which line 28 reads the same chip
  name, one class serves both calls, whatever the binaries, the verbose flags,
  the worlds the calls run in and the behaviour of the constructors: the class
  is a function of the chip name alone.
\<close>

theorem get_bridge_selection_deterministic:
  assumes "chip_name config1 = Inr chip" and "chip_name config2 = Inr chip"
  shows "\<exists>cls. \<forall>construct binaries1 verbose1 w1 binaries2 verbose2 w2.
           get_bridge construct config1 binaries1 verbose1 w1 =
             construct cls config1 binaries1 verbose1 w1
         \<and> get_bridge construct config2 binaries2 verbose2 w2 =
             construct cls config2 binaries2 verbose2 w2"
  by (intro exI [of _ "resolve chip"] allI conjI get_bridge_of_chip assms)

theorem get_bridge_selection_deterministic_witness:
  "\<exists>cls.
     get_bridge new_bridge (system_config [(''gap'', chip_entry ''gap'')])
         ([] :: image list) False ()
       = new_bridge cls (system_config [(''gap'', chip_entry ''gap'')]) [] False ()
   \<and> get_bridge new_bridge
         (system_config [(''soc'', chip_entry ''gap''), (''x'', nameless_entry)])
         ([(4096, [1, 2, 3], 4096)] :: image list) True ()
       = new_bridge cls (system_config [(''soc'', chip_entry ''gap''), (''x'', nameless_entry)])
           [(4096, [1, 2, 3], 4096)] True ()"
proof -
  have a: "chip_name (system_config [(''gap'', chip_entry ''gap'')]) = Inr ''gap''"
    by (rule chip_name_system_config)
  have b: "chip_name (system_config [(''soc'', chip_entry ''gap''), (''x'', nameless_entry)])
             = Inr ''gap''"
    by (rule chip_name_system_config)
  have "\<exists>cls. \<forall>construct binaries1 verbose1 w1 binaries2 verbose2 w2.
       get_bridge construct (system_config [(''gap'', chip_entry ''gap'')]) binaries1 verbose1 w1 =
         (construct cls (system_config [(''gap'', chip_entry ''gap'')]) binaries1 verbose1 w1
            :: (py_exception + image list bridge_handle) \<times> unit)
     \<and> get_bridge construct
           (system_config [(''soc'', chip_entry ''gap''), (''x'', nameless_entry)])
           (binaries2 :: image list) verbose2 w2 =
         construct cls (system_config [(''soc'', chip_entry ''gap''), (''x'', nameless_entry)])
           binaries2 verbose2 w2"
    by (rule get_bridge_selection_deterministic [OF a b])
  then obtain cls where sel:
    "\<And>construct binaries1 verbose1 w1 binaries2 verbose2 w2.
       get_bridge construct (system_config [(''gap'', chip_entry ''gap'')]) binaries1 verbose1 w1 =
         (construct cls (system_config [(''gap'', chip_entry ''gap'')]) binaries1 verbose1 w1
            :: (py_exception + image list bridge_handle) \<times> unit)
     \<and> get_bridge construct
           (system_config [(''soc'', chip_entry ''gap''), (''x'', nameless_entry)])
           (binaries2 :: image list) verbose2 w2 =
         construct cls (system_config [(''soc'', chip_entry ''gap''), (''x'', nameless_entry)])
           binaries2 verbose2 w2"
    by blast
  show ?thesis
    by (rule exI [of _ cls])
       (rule sel [of new_bridge "[]" False "()" "[(4096, [1, 2, 3], 4096)]" True "()"])
qed

subsection \<open>One constructor call, with the arguments as received\<close>

text \<open>
  Claim C4. When line 28 yields a chip name, \<open>get_bridge\<close> is one call of the
  selected constructor with the very \<open>config\<close>, \<open>binaries\<close> and \<open>verbose\<close> it
  received, started in the world \<open>get_bridge\<close> was started in, and it returns
  what that call returns and leaves the world that call leaves: with logging
  constructors the log grows by exactly that one entry. When line 28 raises, no
  constructor is called and the world is unchanged. With the constructors as
  the specification describes them, the handle returned holds the three
  arguments, is unattached, and the world (the wire to the target included) is
  as it was.
\<close>

theorem get_bridge_constructs_once:
  "(chip_name config = Inr chip \<longrightarrow>
      get_bridge construct config binaries verbose w =
        construct (resolve chip) config binaries verbose w
      \<and> get_bridge (logged construct) config binaries verbose (calls, w) =
        (fst (construct (resolve chip) config binaries verbose w),
         calls @ [(resolve chip, config, binaries, verbose)],
         snd (construct (resolve chip) config binaries verbose w)))
   \<and> (chip_name config = Inl e \<longrightarrow>
      get_bridge construct config binaries verbose w = (Inl e, w)
      \<and> get_bridge (logged construct) config binaries verbose (calls, w) = (Inl e, calls, w))
   \<and> (get_bridge new_bridge config binaries verbose w = (Inr h, w') \<longrightarrow>
      w' = w \<and> handle_config h = config \<and> handle_binaries h = binaries
      \<and> handle_verbose h = verbose \<and> state h = Unattached)"
proof (intro conjI impI)
  assume c: "chip_name config = Inr chip"
  show "get_bridge construct config binaries verbose w =
          construct (resolve chip) config binaries verbose w"
    using c by (rule get_bridge_of_chip)
  show "get_bridge (logged construct) config binaries verbose (calls, w) =
        (fst (construct (resolve chip) config binaries verbose w),
         calls @ [(resolve chip, config, binaries, verbose)],
         snd (construct (resolve chip) config binaries verbose w))"
    using c by (simp add: get_bridge_of_chip logged_def split: prod.splits)
next
  assume e: "chip_name config = Inl e"
  show "get_bridge construct config binaries verbose w = (Inl e, w)"
    using e by (rule get_bridge_of_error)
  show "get_bridge (logged construct) config binaries verbose (calls, w) = (Inl e, calls, w)"
    using e by (rule get_bridge_of_error)
next
  assume r: "get_bridge new_bridge config binaries verbose w = (Inr h, w')"
  then obtain chip where c: "chip_name config = Inr chip"
    by (cases "chip_name config") (auto simp: get_bridge_of_error)
  from r have n: "new_bridge (resolve chip) config binaries verbose w = (Inr h, w')"
    by (simp add: get_bridge_of_chip [OF c])
  from n show "w' = w" by (auto simp: new_bridge_def)
  from n show "handle_config h = config" by (auto simp: new_bridge_def)
  from n show "handle_binaries h = binaries" by (auto simp: new_bridge_def)
  from n show "handle_verbose h = verbose" by (auto simp: new_bridge_def)
  from n show "state h = Unattached" by (auto simp: new_bridge_def)
qed

theorem get_bridge_constructs_once_witness:
  "get_bridge (logged new_bridge) (system_config [(''wolfe'', chip_entry ''wolfe'')])
       ([(4096, [7, 7], 4096)] :: image list) True ([], [] :: tx list)
     = (Inr \<lparr>impl = wolfe_debug_bridge,
              handle_config = system_config [(''wolfe'', chip_entry ''wolfe'')],
              handle_binaries = [(4096, [7, 7], 4096)], handle_verbose = True,
              state = Unattached\<rparr>,
        [(wolfe_debug_bridge, system_config [(''wolfe'', chip_entry ''wolfe'')],
          [(4096, [7, 7], 4096)], True)],
        [])
   \<and> (get_bridge (logged new_bridge) chipless_config ([] :: image list) False ([], [] :: tx list)
        :: (py_exception + image list bridge_handle) \<times> _)
     = (Inl AttributeError, [], [])"
proof -
  have a: "chip_name (system_config [(''wolfe'', chip_entry ''wolfe'')]) = Inr ''wolfe''"
    by (rule chip_name_system_config)
  have b: "chip_name chipless_config = Inl AttributeError"
    by (simp add: chip_name_def chipless_config_def)
  have "get_bridge (logged new_bridge) (system_config [(''wolfe'', chip_entry ''wolfe'')])
       ([(4096, [7, 7], 4096)] :: image list) True ([], [] :: tx list)
     = (Inr \<lparr>impl = wolfe_debug_bridge,
              handle_config = system_config [(''wolfe'', chip_entry ''wolfe'')],
              handle_binaries = [(4096, [7, 7], 4096)], handle_verbose = True,
              state = Unattached\<rparr>,
        [(wolfe_debug_bridge, system_config [(''wolfe'', chip_entry ''wolfe'')],
          [(4096, [7, 7], 4096)], True)],
        [])"
    using a get_bridge_constructs_once
          [of "system_config [(''wolfe'', chip_entry ''wolfe'')]" "''wolfe''"
              new_bridge "[(4096, [7, 7], 4096)] :: image list" True "[] :: tx list" "[]"]
    by (simp add: new_bridge_def resolve_chain)
  moreover have "(get_bridge (logged new_bridge) chipless_config ([] :: image list) False
        ([], [] :: tx list) :: (py_exception + image list bridge_handle) \<times> _)
     = (Inl AttributeError, [], [])"
    using b get_bridge_constructs_once
          [of chipless_config _
              "new_bridge :: bridge_class \<Rightarrow> config \<Rightarrow> image list \<Rightarrow> bool \<Rightarrow> tx list
                 \<Rightarrow> (py_exception + image list bridge_handle) \<times> tx list"
              "[] :: image list" False "[] :: tx list" "[]" AttributeError]
    by simp
  ultimately show ?thesis by (rule conjI)
qed

subsection \<open>Exact comparison of the chip name\<close>

text \<open>
  Claim C9. The chip name is compared for equality of strings: every name
  other than \<open>''gap''\<close>, \<open>''fulmine''\<close> and \<open>''wolfe''\<close> themselves selects the
  generic \<open>debug_bridge\<close>, in particular a name that differs only in letter
  case or by a surrounding blank; a chip-specific class is selected for the
  three exact names only.
\<close>

theorem get_bridge_exact_match:
  assumes "chip_name config = Inr chip"
  shows "(chip \<noteq> ''gap'' \<and> chip \<noteq> ''fulmine'' \<and> chip \<noteq> ''wolfe'' \<longrightarrow>
            get_bridge construct config binaries verbose w =
              construct debug_bridge config binaries verbose w)
       \<and> (chip \<in> {''GAP'', ''Gap'', ''gap '', '' gap'', ''FULMINE'', ''Fulmine'', ''fulmine '',
                   ''WOLFE'', ''Wolfe'', '' wolfe''} \<longrightarrow>
            get_bridge construct config binaries verbose w =
              construct debug_bridge config binaries verbose w)
       \<and> (resolve chip \<noteq> debug_bridge) = (chip \<in> {''gap'', ''fulmine'', ''wolfe''})"
proof (intro conjI impI)
  assume "chip \<noteq> ''gap'' \<and> chip \<noteq> ''fulmine'' \<and> chip \<noteq> ''wolfe''"
  then show "get_bridge construct config binaries verbose w =
               construct debug_bridge config binaries verbose w"
    using assms by (simp add: get_bridge_def)
next
  assume "chip \<in> {''GAP'', ''Gap'', ''gap '', '' gap'', ''FULMINE'', ''Fulmine'', ''fulmine '',
                   ''WOLFE'', ''Wolfe'', '' wolfe''}"
  then have "chip \<noteq> ''gap'' \<and> chip \<noteq> ''fulmine'' \<and> chip \<noteq> ''wolfe''"
    by auto
  then show "get_bridge construct config binaries verbose w =
               construct debug_bridge config binaries verbose w"
    using assms by (simp add: get_bridge_def)
next
  show "(resolve chip \<noteq> debug_bridge) = (chip \<in> {''gap'', ''fulmine'', ''wolfe''})"
    by (simp add: resolve_chain)
qed

theorem get_bridge_exact_match_witness:
  "get_bridge new_bridge (system_config [(''gap'', chip_entry ''GAP'')]) ([] :: image list) False ()
     = new_bridge debug_bridge (system_config [(''gap'', chip_entry ''GAP'')]) [] False ()
   \<and> get_bridge new_bridge (system_config [(''gap'', chip_entry ''gap '')]) ([] :: image list) False ()
     = new_bridge debug_bridge (system_config [(''gap'', chip_entry ''gap '')]) [] False ()"
  using get_bridge_exact_match
          [of "system_config [(''gap'', chip_entry ''GAP'')]" "''GAP''"
              new_bridge "[] :: image list" False "()"]
        get_bridge_exact_match
          [of "system_config [(''gap'', chip_entry ''gap '')]" "''gap ''"
              new_bridge "[] :: image list" False "()"]
  by (simp add: chip_name_system_config)

subsection \<open>Omitted arguments\<close>

text \<open>
  Claim C5. The entry point takes \<open>config\<close>, \<open>binaries\<close> and \<open>verbose\<close>; the
  \<open>def\<close> statement stores an empty list as the default of \<open>binaries\<close> and
  \<open>False\<close> as the default of \<open>verbose\<close>, and a call that omits an argument is the
  call with the stored default in its place, while an argument that is given
  is used as given.
\<close>

theorem get_bridge_default_arguments:
  assumes "def_get_bridge hp = (defaults, hp')"
  shows "cells hp' (default_binaries defaults) = Some []
       \<and> default_verbose defaults = False
       \<and> call_get_bridge defaults construct config None None w =
           get_bridge construct config (default_binaries defaults) False w
       \<and> call_get_bridge defaults construct config (Some b) None w =
           get_bridge construct config b False w
       \<and> call_get_bridge defaults construct config None (Some v) w =
           get_bridge construct config (default_binaries defaults) v w
       \<and> call_get_bridge defaults construct config (Some b) (Some v) w =
           get_bridge construct config b v w"
proof -
  note r = def_get_bridge_result [OF assms]
  have "cells hp' (default_binaries defaults) = Some []"
    by (simp add: r(1) r(3))
  moreover have "default_verbose defaults = False"
    by (rule r(2))
  ultimately show ?thesis
    by (simp add: call_get_bridge_def)
qed

theorem get_bridge_default_arguments_witness:
  "def_get_bridge (empty_heap :: image heap)
     = (\<lparr>default_binaries = 0, default_verbose = False\<rparr>,
        \<lparr>cells = (\<lambda>_. None)(0 \<mapsto> []), next_ref = 1\<rparr>)
   \<and> call_get_bridge \<lparr>default_binaries = 0, default_verbose = False\<rparr> new_bridge
        (system_config [(''gap'', chip_entry ''gap'')]) None None
        (\<lparr>cells = (\<lambda>_. None)(0 \<mapsto> []), next_ref = 1\<rparr> :: image heap)
     = get_bridge new_bridge (system_config [(''gap'', chip_entry ''gap'')]) 0 False
        \<lparr>cells = (\<lambda>_. None)(0 \<mapsto> []), next_ref = 1\<rparr>"
proof -
  have d: "def_get_bridge (empty_heap :: image heap)
     = (\<lparr>default_binaries = 0, default_verbose = False\<rparr>,
        \<lparr>cells = (\<lambda>_. None)(0 \<mapsto> []), next_ref = 1\<rparr>)"
    by (simp add: def_get_bridge_def new_list_def empty_heap_def)
  from get_bridge_default_arguments [OF d, of new_bridge "system_config [(''gap'', chip_entry ''gap'')]"
         "\<lparr>cells = (\<lambda>_. None)(0 \<mapsto> []), next_ref = 1\<rparr> :: image heap"]
  show ?thesis using d by simp
qed

subsection \<open>The default list is one object\<close>

text \<open>
  Claim C10. Every call that omits \<open>binaries\<close> passes the one reference the
  \<open>def\<close> statement stored: no call allocates a list. So two bridges constructed
  by such calls hold the same reference, and an element appended to the list
  through the first bridge is in the list the second bridge holds; after such
  an append, the list of a bridge constructed with the default is not empty.
\<close>

theorem get_bridge_default_list_shared:
  assumes "def_get_bridge hp0 = (defaults, hp1)"
  shows "(\<forall>construct config verbose w.
            call_get_bridge defaults construct config None verbose w =
              call_get_bridge defaults construct config (Some (default_binaries defaults)) verbose w)
       \<and> (call_get_bridge defaults new_bridge config1 None verbose1 hp = (Inr b1, hp2)
          \<and> call_get_bridge defaults new_bridge config2 None verbose2
               (list_append (handle_binaries b1) x hp2) = (Inr b2, hp3)
          \<longrightarrow> handle_binaries b1 = default_binaries defaults
            \<and> handle_binaries b2 = handle_binaries b1
            \<and> cells hp3 (handle_binaries b2) =
                map_option (\<lambda>xs. xs @ [x]) (cells hp (handle_binaries b1)))
       \<and> (call_get_bridge defaults new_bridge config1 None verbose1 hp1 = (Inr b1, hp2)
          \<and> call_get_bridge defaults new_bridge config2 None verbose2
               (list_append (handle_binaries b1) x hp2) = (Inr b2, hp3)
          \<longrightarrow> cells hp3 (handle_binaries b2) = Some [x])"
proof (intro conjI allI impI)
  note r = def_get_bridge_result [OF assms]
  fix construct :: "bridge_class \<Rightarrow> config \<Rightarrow> ref \<Rightarrow> bool \<Rightarrow> 'w \<Rightarrow> (py_exception + 'h) \<times> 'w"
  fix config verbose w
  show "call_get_bridge defaults construct config None verbose w =
          call_get_bridge defaults construct config (Some (default_binaries defaults)) verbose w"
    by (simp add: call_get_bridge_def)
next
  assume two: "call_get_bridge defaults new_bridge config1 None verbose1 hp = (Inr b1, hp2)
          \<and> call_get_bridge defaults new_bridge config2 None verbose2
               (list_append (handle_binaries b1) x hp2) = (Inr b2, hp3)"
  note s = default_call_new_bridge [OF conjunct1 [OF two]] default_call_new_bridge [OF conjunct2 [OF two]]
  show "handle_binaries b1 = default_binaries defaults" by (rule s(1))
  show "handle_binaries b2 = handle_binaries b1" by (simp add: s(1) s(3))
  show "cells hp3 (handle_binaries b2) =
          map_option (\<lambda>xs. xs @ [x]) (cells hp (handle_binaries b1))"
    by (simp add: s list_append_def split: option.splits)
next
  note r = def_get_bridge_result [OF assms]
  assume two: "call_get_bridge defaults new_bridge config1 None verbose1 hp1 = (Inr b1, hp2)
          \<and> call_get_bridge defaults new_bridge config2 None verbose2
               (list_append (handle_binaries b1) x hp2) = (Inr b2, hp3)"
  note s = default_call_new_bridge [OF conjunct1 [OF two]] default_call_new_bridge [OF conjunct2 [OF two]]
  show "cells hp3 (handle_binaries b2) = Some [x]"
    by (simp add: s r list_append_def)
qed


theorem get_bridge_default_list_shared_witness:
  "def_get_bridge (empty_heap :: image heap)
     = (\<lparr>default_binaries = 0, default_verbose = False\<rparr>,
        \<lparr>cells = (\<lambda>_. None)(0 \<mapsto> []), next_ref = 1\<rparr>)
   \<and> call_get_bridge \<lparr>default_binaries = 0, default_verbose = False\<rparr> new_bridge
        (system_config [(''gap'', chip_entry ''gap'')]) None None
        (\<lparr>cells = (\<lambda>_. None)(0 \<mapsto> []), next_ref = 1\<rparr> :: image heap)
     = (Inr \<lparr>impl = gap_debug_bridge,
              handle_config = system_config [(''gap'', chip_entry ''gap'')],
              handle_binaries = 0, handle_verbose = False, state = Unattached\<rparr>,
        \<lparr>cells = (\<lambda>_. None)(0 \<mapsto> []), next_ref = 1\<rparr>)
   \<and> call_get_bridge \<lparr>default_binaries = 0, default_verbose = False\<rparr> new_bridge
        (system_config [(''wolfe'', chip_entry ''wolfe'')]) None (Some True)
        (list_append 0 (4096, [7, 7], 4096)
           (\<lparr>cells = (\<lambda>_. None)(0 \<mapsto> []), next_ref = 1\<rparr> :: image heap))
     = (Inr \<lparr>impl = wolfe_debug_bridge,
              handle_config = system_config [(''wolfe'', chip_entry ''wolfe'')],
              handle_binaries = 0, handle_verbose = True, state = Unattached\<rparr>,
        \<lparr>cells = (\<lambda>_. None)(0 \<mapsto> [(4096, [7, 7], 4096)]), next_ref = 1\<rparr>)
   \<and> cells \<lparr>cells = (\<lambda>_. None)(0 \<mapsto> [(4096, [7, 7], 4096) :: image]), next_ref = 1\<rparr>
        (handle_binaries
           \<lparr>impl = wolfe_debug_bridge,
            handle_config = system_config [(''wolfe'', chip_entry ''wolfe'')],
            handle_binaries = 0, handle_verbose = True, state = Unattached\<rparr>)
     = Some [(4096, [7, 7], 4096)]"
proof -
  let ?D = "\<lparr>default_binaries = 0, default_verbose = False\<rparr>"
  let ?H1 = "\<lparr>cells = (\<lambda>_. None)(0 \<mapsto> []), next_ref = 1\<rparr> :: image heap"
  let ?H3 = "\<lparr>cells = (\<lambda>_. None)(0 \<mapsto> [(4096, [7, 7], 4096)]), next_ref = 1\<rparr> :: image heap"
  let ?B1 = "\<lparr>impl = gap_debug_bridge,
              handle_config = system_config [(''gap'', chip_entry ''gap'')],
              handle_binaries = 0 :: ref, handle_verbose = False, state = Unattached\<rparr>"
  let ?B2 = "\<lparr>impl = wolfe_debug_bridge,
              handle_config = system_config [(''wolfe'', chip_entry ''wolfe'')],
              handle_binaries = 0 :: ref, handle_verbose = True, state = Unattached\<rparr>"
  have d: "def_get_bridge (empty_heap :: image heap) = (?D, ?H1)"
    by (simp add: def_get_bridge_def new_list_def empty_heap_def)
  have c1: "call_get_bridge ?D new_bridge (system_config [(''gap'', chip_entry ''gap'')])
              None None ?H1 = (Inr ?B1, ?H1)"
    by (simp add: call_get_bridge_def get_bridge_of_chip [OF chip_name_system_config]
          resolve_chain new_bridge_def)
  have c2: "call_get_bridge ?D new_bridge (system_config [(''wolfe'', chip_entry ''wolfe'')])
              None (Some True) (list_append (handle_binaries ?B1) (4096, [7, 7], 4096) ?H1)
            = (Inr ?B2, ?H3)"
    by (simp add: call_get_bridge_def get_bridge_of_chip [OF chip_name_system_config]
          resolve_chain new_bridge_def list_append_def)
  have shared: "cells ?H3 (handle_binaries ?B2) = Some [(4096, [7, 7], 4096)]"
    using get_bridge_default_list_shared [OF d] c1 c2 by blast
  have c2': "call_get_bridge ?D new_bridge (system_config [(''wolfe'', chip_entry ''wolfe'')])
              None (Some True) (list_append 0 (4096, [7, 7], 4096) ?H1) = (Inr ?B2, ?H3)"
    using c2 by simp
  from d c1 c2' shared show ?thesis by (intro conjI)
qed

section \<open>Properties of the capability contract\<close>

subsection \<open>Shared facts\<close>

lemma transact_cases:
  "transact link c h t k = (r, h1, t1) \<Longrightarrow>
   t1 = t @ [c] \<and>
   ((\<exists>e. reply_error (link t c) = Some e \<and> r = Inl e \<and> h1 = h)
    \<or> (reply_error (link t c) = None \<and> r = Inr (fst (k (reply_data (link t c))))
        \<and> h1 = snd (k (reply_data (link t c)))))"
  by (auto simp: transact_def split: option.splits prod.splits)

lemma attach_failed:
  assumes "attach link h t = (Inl e, h1, t1)" shows "h1 = h"
proof (cases "state h")
  case Unattached
  show ?thesis
  proof (cases "link t Tx_open")
    case (Ack d)
    with Unattached assms
    have "transact link Tx_handshake h (t @ [Tx_open]) (\<lambda>_. ((), h\<lparr>state := Attached Stopped\<rparr>))
            = (Inl e, h1, t1)"
      by (simp add: attach_def)
    from transact_cases [OF this] show ?thesis by auto
  next
    case Malformed
    with Unattached assms show ?thesis by (simp add: attach_def)
  next
    case Failed
    with Unattached assms show ?thesis by (simp add: attach_def)
  qed
next
  case (Attached x)
  with assms show ?thesis by (simp add: attach_def)
next
  case Detached
  with assms show ?thesis by (simp add: attach_def)
qed

lemma attach_succeeded:
  assumes "attach link h t = (Inr u, h1, t1)"
  shows "state h = Unattached \<and> state h1 = Attached Stopped"
proof (cases "state h")
  case Unattached
  show ?thesis
  proof (cases "link t Tx_open")
    case (Ack d)
    with Unattached assms
    have "transact link Tx_handshake h (t @ [Tx_open]) (\<lambda>_. ((), h\<lparr>state := Attached Stopped\<rparr>))
            = (Inr u, h1, t1)"
      by (simp add: attach_def)
    from transact_cases [OF this] Unattached show ?thesis by auto
  next
    case Malformed
    with Unattached assms show ?thesis by (simp add: attach_def)
  next
    case Failed
    with Unattached assms show ?thesis by (simp add: attach_def)
  qed
next
  case (Attached x)
  with assms show ?thesis by (simp add: attach_def)
next
  case Detached
  with assms show ?thesis by (simp add: attach_def)
qed

lemma detach_result:
  assumes "detach h t = (r, h2, t2)"
  shows "r = Inr () \<and> state h2 = Detached \<and> detach h2 t2 = (Inr (), h2, t2)"
  using assms by (cases "state h") (auto simp: detach_def)

lemma new_bridge_unattached:
  assumes "get_bridge new_bridge config binaries verbose w = (Inr h, w')"
  shows "state h = Unattached"
proof -
  from assms obtain chip where c: "chip_name config = Inr chip"
    by (cases "chip_name config") (auto simp: get_bridge_of_error)
  from assms show ?thesis
    by (auto simp: get_bridge_of_chip [OF c] new_bridge_def)
qed

lemma load_images_append:
  "load_images chip link pre t = (None, t1) \<Longrightarrow>
   load_images chip link (pre @ rest) t = load_images chip link rest t1"
proof (induction pre arbitrary: t)
  case Nil
  then show ?case by simp
next
  case (Cons img pre)
  obtain addr bytes entry where img: "img = (addr, bytes, entry)"
    by (cases img) auto
  from Cons.prems img
  have fit: "in_bounds (memory_map chip) addr (length bytes)"
    and ok: "reply_error (link t (Tx_write addr bytes)) = None"
    and tl: "load_images chip link pre (t @ [Tx_write addr bytes]) = (None, t1)"
    by (auto split: if_splits option.splits)
  from Cons.IH [OF tl] fit ok img show ?case by simp
qed

lemma load_images_writes:
  "load_images chip link imgs t = (r, t') \<Longrightarrow>
   \<exists>new. t' = t @ new
     \<and> (\<forall>c \<in> set new. \<exists>a bs. c = Tx_write a bs \<and> in_bounds (memory_map chip) a (length bs))"
proof (induction imgs arbitrary: t)
  case Nil
  then show ?case by simp
next
  case (Cons img imgs)
  obtain addr bytes entry where img: "img = (addr, bytes, entry)"
    by (cases img) auto
  show ?case
  proof (cases "in_bounds (memory_map chip) addr (length bytes)")
    case False
    with Cons.prems img show ?thesis by simp
  next
    case True
    show ?thesis
    proof (cases "reply_error (link t (Tx_write addr bytes))")
      case (Some e)
      with True Cons.prems img have "t' = t @ [Tx_write addr bytes]" by auto
      with True show ?thesis by auto
    next
      case None
      with True Cons.prems img
      have "load_images chip link imgs (t @ [Tx_write addr bytes]) = (r, t')" by simp
      from Cons.IH [OF this] obtain new where
        n: "t' = (t @ [Tx_write addr bytes]) @ new"
        and w: "\<forall>c \<in> set new. \<exists>a bs. c = Tx_write a bs \<and> in_bounds (memory_map chip) a (length bs)"
        by blast
      from n have "t' = t @ (Tx_write addr bytes # new)" by simp
      moreover from w True
      have "\<forall>c \<in> set (Tx_write addr bytes # new).
              \<exists>a bs. c = Tx_write a bs \<and> in_bounds (memory_map chip) a (length bs)"
        by auto
      ultimately show ?thesis by blast
    qed
  qed
qed

lemma load_images_stops:
  "(addr, bytes, entry) \<in> set imgs \<Longrightarrow> \<not> in_bounds (memory_map chip) addr (length bytes) \<Longrightarrow>
   \<exists>e. fst (load_images chip link imgs t) = Some e"
proof (induction imgs arbitrary: t)
  case Nil
  then show ?case by simp
next
  case (Cons img imgs)
  obtain a bs en where img: "img = (a, bs, en)"
    by (cases img) auto
  show ?case
  proof (cases "img = (addr, bytes, entry)")
    case True
    with Cons.prems show ?thesis by simp
  next
    case False
    with Cons.prems have "(addr, bytes, entry) \<in> set imgs" by simp
    from Cons.IH [OF this Cons.prems(2)] img show ?thesis
      by (auto split: option.splits)
  qed
qed

lemma load_images_error_source:
  "load_images chip link imgs t = (Some e, t @ new) \<Longrightarrow>
   e = OutOfRangeError
   \<or> (new \<noteq> [] \<and> reply_error (link (t @ butlast new) (last new)) = Some e)"
proof (induction imgs arbitrary: t new)
  case Nil
  then show ?case by simp
next
  case (Cons img imgs)
  obtain addr bytes entry where img: "img = (addr, bytes, entry)"
    by (cases img) auto
  show ?case
  proof (cases "in_bounds (memory_map chip) addr (length bytes)")
    case False
    with Cons.prems img show ?thesis by simp
  next
    case True
    show ?thesis
    proof (cases "reply_error (link t (Tx_write addr bytes))")
      case (Some e')
      with True Cons.prems img have "e' = e" and "new = [Tx_write addr bytes]" by auto
      with Some show ?thesis by simp
    next
      case None
      with True Cons.prems img
      have l: "load_images chip link imgs (t @ [Tx_write addr bytes]) = (Some e, t @ new)"
        by simp
      from load_images_writes [OF l] obtain new' where
        n: "t @ new = (t @ [Tx_write addr bytes]) @ new'"
        by blast
      then have new: "new = Tx_write addr bytes # new'" by simp
      from l n have "load_images chip link imgs (t @ [Tx_write addr bytes])
                       = (Some e, (t @ [Tx_write addr bytes]) @ new')"
        by simp
      from Cons.IH [OF this]
      have "e = OutOfRangeError
            \<or> (new' \<noteq> [] \<and> reply_error (link ((t @ [Tx_write addr bytes]) @ butlast new') (last new')) = Some e)" .
      with new show ?thesis by auto
    qed
  qed
qed

subsection \<open>Operations need an attached handle\<close>

text \<open>
  Claim C6. On a handle that is unattached or detached, each capability
  operation (load, run, stop, step, memory and register access) fails with
  \<open>InvalidStateError\<close> and changes neither the handle nor the wire. The handle
  \<open>get_bridge\<close> returns is unattached, and an \<open>attach\<close> that fails leaves the
  handle as it was, so this is the case until an \<open>attach\<close> has succeeded;
  \<open>detach\<close> always succeeds and leaves the handle detached, so it is the case
  again after it, and a second \<open>detach\<close> succeeds and changes nothing.
\<close>

theorem capability_requires_attachment:
  "(state h = Unattached \<or> state h = Detached \<longrightarrow>
       load chip link binaries h t = (Inl InvalidStateError, h, t)
     \<and> run link h t = (Inl InvalidStateError, h, t)
     \<and> stop link h t = (Inl InvalidStateError, h, t)
     \<and> step link h t = (Inl InvalidStateError, h, t)
     \<and> read_memory chip link addr len h t = (Inl InvalidStateError, h, t)
     \<and> write_memory chip link addr bytes h t = (Inl InvalidStateError, h, t)
     \<and> read_register chip link reg h t = (Inl InvalidStateError, h, t)
     \<and> write_register chip link reg v h t = (Inl InvalidStateError, h, t))
   \<and> (get_bridge new_bridge config bins verbose w = (Inr h0, w') \<longrightarrow> state h0 = Unattached)
   \<and> (attach link h t = (Inl e, h1, t1) \<longrightarrow> h1 = h)
   \<and> (attach link h t = (Inr u, h1, t1) \<longrightarrow> state h = Unattached \<and> state h1 = Attached Stopped)
   \<and> (detach h t = (r, h2, t2) \<longrightarrow>
        r = Inr () \<and> state h2 = Detached \<and> detach h2 t2 = (Inr (), h2, t2))"
proof (intro conjI impI)
  assume s: "state h = Unattached \<or> state h = Detached"
  then have a: "\<not> access_allowed chip (state h)"
    by (auto simp: access_allowed_def)
  from s show "load chip link binaries h t = (Inl InvalidStateError, h, t)"
    by (auto simp: load_def)
  from s show "run link h t = (Inl InvalidStateError, h, t)"
    by (auto simp: run_def)
  from s show "stop link h t = (Inl InvalidStateError, h, t)"
    by (auto simp: stop_def)
  from s show "step link h t = (Inl InvalidStateError, h, t)"
    by (auto simp: step_def)
  from a show "read_memory chip link addr len h t = (Inl InvalidStateError, h, t)"
    by (simp add: read_memory_def)
  from a show "write_memory chip link addr bytes h t = (Inl InvalidStateError, h, t)"
    by (simp add: write_memory_def)
  from a show "read_register chip link reg h t = (Inl InvalidStateError, h, t)"
    by (simp add: read_register_def)
  from a show "write_register chip link reg v h t = (Inl InvalidStateError, h, t)"
    by (simp add: write_register_def)
next
  assume "get_bridge new_bridge config bins verbose w = (Inr h0, w')"
  then show "state h0 = Unattached" by (rule new_bridge_unattached)
next
  assume "attach link h t = (Inl e, h1, t1)"
  then show "h1 = h" by (rule attach_failed)
next
  assume a: "attach link h t = (Inr u, h1, t1)"
  from attach_succeeded [OF a] show "state h = Unattached" by simp
  from attach_succeeded [OF a] show "state h1 = Attached Stopped" by simp
next
  assume d: "detach h t = (r, h2, t2)"
  from detach_result [OF d] show "r = Inr ()" by simp
  from detach_result [OF d] show "state h2 = Detached" by simp
  from detach_result [OF d] show "detach h2 t2 = (Inr (), h2, t2)" by simp
qed

theorem capability_requires_attachment_witness:
  "get_bridge new_bridge (system_config [(''gap'', chip_entry ''gap'')]) () False ([] :: tx list)
     = (Inr \<lparr>impl = gap_debug_bridge,
              handle_config = system_config [(''gap'', chip_entry ''gap'')],
              handle_binaries = (), handle_verbose = False, state = Unattached\<rparr>, [])
   \<and> load small_chip steady_link [(4096, [1, 2], 4096)]
        \<lparr>impl = gap_debug_bridge,
          handle_config = system_config [(''gap'', chip_entry ''gap'')],
          handle_binaries = (), handle_verbose = False, state = Unattached\<rparr> []
     = (Inl InvalidStateError,
        \<lparr>impl = gap_debug_bridge,
          handle_config = system_config [(''gap'', chip_entry ''gap'')],
          handle_binaries = (), handle_verbose = False, state = Unattached\<rparr>, [])
   \<and> attach dead_link
        \<lparr>impl = gap_debug_bridge,
          handle_config = system_config [(''gap'', chip_entry ''gap'')],
          handle_binaries = (), handle_verbose = False, state = Unattached\<rparr> []
     = (Inl TransportError,
        \<lparr>impl = gap_debug_bridge,
          handle_config = system_config [(''gap'', chip_entry ''gap'')],
          handle_binaries = (), handle_verbose = False, state = Unattached\<rparr>, [Tx_open])
   \<and> detach
        \<lparr>impl = gap_debug_bridge,
          handle_config = system_config [(''gap'', chip_entry ''gap'')],
          handle_binaries = (), handle_verbose = False, state = Attached Running\<rparr>
        [Tx_open, Tx_handshake, Tx_resume]
     = (Inr (),
        \<lparr>impl = gap_debug_bridge,
          handle_config = system_config [(''gap'', chip_entry ''gap'')],
          handle_binaries = (), handle_verbose = False, state = Detached\<rparr>,
        [Tx_open, Tx_handshake, Tx_resume, Tx_close])
   \<and> detach
        \<lparr>impl = gap_debug_bridge,
          handle_config = system_config [(''gap'', chip_entry ''gap'')],
          handle_binaries = (), handle_verbose = False, state = Detached\<rparr>
        [Tx_open, Tx_handshake, Tx_resume, Tx_close]
     = (Inr (),
        \<lparr>impl = gap_debug_bridge,
          handle_config = system_config [(''gap'', chip_entry ''gap'')],
          handle_binaries = (), handle_verbose = False, state = Detached\<rparr>,
        [Tx_open, Tx_handshake, Tx_resume, Tx_close])
   \<and> read_register small_chip steady_link 3
        \<lparr>impl = gap_debug_bridge,
          handle_config = system_config [(''gap'', chip_entry ''gap'')],
          handle_binaries = (), handle_verbose = False, state = Detached\<rparr>
        [Tx_open, Tx_handshake, Tx_resume, Tx_close]
     = (Inl InvalidStateError,
        \<lparr>impl = gap_debug_bridge,
          handle_config = system_config [(''gap'', chip_entry ''gap'')],
          handle_binaries = (), handle_verbose = False, state = Detached\<rparr>,
        [Tx_open, Tx_handshake, Tx_resume, Tx_close])"
proof -
  let ?C = "system_config [(''gap'', chip_entry ''gap'')]"
  let ?U = "\<lparr>impl = gap_debug_bridge, handle_config = ?C,
          handle_binaries = (), handle_verbose = False, state = Unattached\<rparr>"
  let ?R = "\<lparr>impl = gap_debug_bridge, handle_config = ?C,
          handle_binaries = (), handle_verbose = False, state = Attached Running\<rparr>"
  let ?D = "\<lparr>impl = gap_debug_bridge, handle_config = ?C,
          handle_binaries = (), handle_verbose = False, state = Detached\<rparr>"
  let ?T = "[Tx_open, Tx_handshake, Tx_resume, Tx_close]"
  have g: "get_bridge new_bridge ?C () False ([] :: tx list) = (Inr ?U, [])"
    by (simp add: get_bridge_of_chip [OF chip_name_system_config] resolve_chain new_bridge_def)
  have a: "attach dead_link ?U [] = (Inl TransportError, ?U, [Tx_open])"
    by (simp add: attach_def dead_link_def)
  have d: "detach ?R [Tx_open, Tx_handshake, Tx_resume] = (Inr (), ?D, ?T)"
    by (simp add: detach_def)
  have su: "state ?U = Unattached \<or> state ?U = Detached" by simp
  have sd: "state ?D = Unattached \<or> state ?D = Detached" by simp
  note c = capability_requires_attachment
  have l: "load small_chip steady_link [(4096, [1, 2], 4096)] ?U []
             = (Inl InvalidStateError, ?U, [])"
    by (rule c [THEN conjunct1, rule_format, OF su, THEN conjunct1])
  have rr: "read_register small_chip steady_link 3 ?D ?T = (Inl InvalidStateError, ?D, ?T)"
    by (rule c [THEN conjunct1, rule_format, OF sd, THEN conjunct2, THEN conjunct2,
          THEN conjunct2, THEN conjunct2, THEN conjunct2, THEN conjunct2, THEN conjunct1])
  have dd: "detach ?D ?T = (Inr (), ?D, ?T)"
    by (rule c [THEN conjunct2, THEN conjunct2, THEN conjunct2, THEN conjunct2,
          rule_format, OF d, THEN conjunct2, THEN conjunct2])
  from g l a d dd rr show ?thesis by (intro conjI)
qed

subsection \<open>The bounds check of load comes before the transport\<close>

text \<open>
  Claim C7, as stated, fails for a load of several images: on an attached
  handle, with a link that is down, loading an image that fits followed by one
  that does not fails with \<open>TransportError\<close> at the write of the first image,
  before the second image is ever validated. No byte of the image out of range
  is put on the wire, but the error is not \<open>OutOfRangeError\<close>.
\<close>

theorem load_out_of_range_counterexample:
  "state \<lparr>impl = debug_bridge, handle_config = chipless_config, handle_binaries = (),
          handle_verbose = False, state = Attached Stopped\<rparr> = Attached Stopped
   \<and> \<not> in_bounds (memory_map small_chip) 20480 (length (replicate 64 (0 :: nat)))
   \<and> load small_chip dead_link [(4096, replicate 64 0, 4096), (20480, replicate 64 0, 20480)]
        \<lparr>impl = debug_bridge, handle_config = chipless_config, handle_binaries = (),
          handle_verbose = False, state = Attached Stopped\<rparr> []
     = (Inl TransportError,
        \<lparr>impl = debug_bridge, handle_config = chipless_config, handle_binaries = (),
          handle_verbose = False, state = Attached Stopped\<rparr>,
        [Tx_write 4096 (replicate 64 0)])"
  by (simp add: load_def in_bounds_def small_chip_def dead_link_def)

text \<open>
  Claim C7, amended. On an attached handle, \<open>load\<close> fails with
  \<open>OutOfRangeError\<close> when it reaches an image whose address range is not
  within the declared memory map, with nothing put on the wire for it: loading
  the image alone leaves the wire untouched, and when the images before it
  were validated and streamed, the wire holds their writes and no more.
  Whatever a load that contains the image does, it fails, none of the commands
  it puts on the wire is a write of that image, and its error is
  \<open>OutOfRangeError\<close> unless the link refused the last write put on the wire,
  that of an earlier image.
\<close>

theorem load_checks_bounds_first:
  assumes "state h = Attached rs"
    and "\<not> in_bounds (memory_map chip) addr (length bytes)"
  shows "load chip link [(addr, bytes, entry)] h t = (Inl OutOfRangeError, h, t)
       \<and> (load_images chip link before t = (None, t1) \<longrightarrow>
            load chip link (before @ (addr, bytes, entry) # rest) h t = (Inl OutOfRangeError, h, t1))
       \<and> ((addr, bytes, entry) \<in> set binaries \<longrightarrow>
            (\<exists>e new. load chip link binaries h t = (Inl e, h, t @ new)
               \<and> Tx_write addr bytes \<notin> set new
               \<and> (e = OutOfRangeError
                    \<or> (new \<noteq> [] \<and> reply_error (link (t @ butlast new) (last new)) = Some e))))"
proof (intro conjI impI)
  show "load chip link [(addr, bytes, entry)] h t = (Inl OutOfRangeError, h, t)"
    using assms by (simp add: load_def)
next
  assume "load_images chip link before t = (None, t1)"
  from load_images_append [OF this]
  show "load chip link (before @ (addr, bytes, entry) # rest) h t = (Inl OutOfRangeError, h, t1)"
    using assms by (simp add: load_def)
next
  assume m: "(addr, bytes, entry) \<in> set binaries"
  obtain r t' where l: "load_images chip link binaries t = (r, t')"
    by (cases "load_images chip link binaries t") auto
  from load_images_stops [OF m assms(2), of link t] l obtain e where e: "r = Some e"
    by auto
  from load_images_writes [OF l] obtain new where
    n: "t' = t @ new"
    and w: "\<forall>c \<in> set new. \<exists>a bs. c = Tx_write a bs \<and> in_bounds (memory_map chip) a (length bs)"
    by blast
  from w assms(2) have "Tx_write addr bytes \<notin> set new" by auto
  moreover from l e n assms(1) have "load chip link binaries h t = (Inl e, h, t @ new)"
    by (simp add: load_def)
  moreover from l e n
  have "e = OutOfRangeError
        \<or> (new \<noteq> [] \<and> reply_error (link (t @ butlast new) (last new)) = Some e)"
    by (simp add: load_images_error_source)
  ultimately show "\<exists>e new. load chip link binaries h t = (Inl e, h, t @ new)
               \<and> Tx_write addr bytes \<notin> set new
               \<and> (e = OutOfRangeError
                    \<or> (new \<noteq> [] \<and> reply_error (link (t @ butlast new) (last new)) = Some e))"
    by blast
qed

theorem load_checks_bounds_first_witness:
  "state \<lparr>impl = debug_bridge, handle_config = chipless_config, handle_binaries = (),
          handle_verbose = False, state = Attached Stopped\<rparr> = Attached Stopped
   \<and> \<not> in_bounds (memory_map small_chip) 20480 (length (replicate 64 (0 :: nat)))
   \<and> load small_chip steady_link [(20480, replicate 64 0, 20480)]
        \<lparr>impl = debug_bridge, handle_config = chipless_config, handle_binaries = (),
          handle_verbose = False, state = Attached Stopped\<rparr> []
     = (Inl OutOfRangeError,
        \<lparr>impl = debug_bridge, handle_config = chipless_config, handle_binaries = (),
          handle_verbose = False, state = Attached Stopped\<rparr>, [])
   \<and> load small_chip steady_link [(4096, replicate 64 0, 4096), (20480, replicate 64 0, 20480)]
        \<lparr>impl = debug_bridge, handle_config = chipless_config, handle_binaries = (),
          handle_verbose = False, state = Attached Stopped\<rparr> []
     = (Inl OutOfRangeError,
        \<lparr>impl = debug_bridge, handle_config = chipless_config, handle_binaries = (),
          handle_verbose = False, state = Attached Stopped\<rparr>,
        [Tx_write 4096 (replicate 64 0)])"
proof -
  let ?H = "\<lparr>impl = debug_bridge, handle_config = chipless_config, handle_binaries = (),
          handle_verbose = False, state = Attached Stopped\<rparr>"
  have s: "state ?H = Attached Stopped" by simp
  have o: "\<not> in_bounds (memory_map small_chip) 20480 (length (replicate 64 (0 :: nat)))"
    by (simp add: in_bounds_def small_chip_def)
  have b: "load_images small_chip steady_link [(4096, replicate 64 0, 4096)] []
             = (None, [Tx_write 4096 (replicate 64 0)])"
    by (simp add: in_bounds_def small_chip_def steady_link_def)
  note t = load_checks_bounds_first [OF s o, of steady_link 20480 "[]"
             "[(4096, replicate 64 0, 4096)]" "[Tx_write 4096 (replicate 64 0)]" "[]"]
  from t have one: "load small_chip steady_link [(20480, replicate 64 0, 20480)] ?H []
                      = (Inl OutOfRangeError, ?H, [])"
    by blast
  from t b have two: "load small_chip steady_link
        ([(4096, replicate 64 0, 4096)] @ (20480, replicate 64 0, 20480) # []) ?H []
      = (Inl OutOfRangeError, ?H, [Tx_write 4096 (replicate 64 0)])"
    by blast
  from s o one two show ?thesis by simp
qed

subsection \<open>Same-state transitions\<close>

text \<open>
  Claim C8. \<open>run\<close> on a running target and \<open>stop\<close> on a stopped target succeed
  and change neither the handle nor the wire; so a \<open>run\<close> directly after a
  successful \<open>run\<close>, and a \<open>stop\<close> directly after a successful \<open>stop\<close>, are
  no-ops.
\<close>

theorem same_state_transition_noop:
  "(state h = Attached Running \<longrightarrow> run link h t = (Inr (), h, t))
   \<and> (state h = Attached Stopped \<longrightarrow> stop link h t = (Inr (), h, t))
   \<and> (run link h t = (Inr u, h1, t1) \<longrightarrow>
        state h1 = Attached Running \<and> run link h1 t1 = (Inr (), h1, t1))
   \<and> (stop link h t = (Inr u, h1, t1) \<longrightarrow>
        state h1 = Attached Stopped \<and> stop link h1 t1 = (Inr (), h1, t1))"
proof (intro conjI impI)
  assume "state h = Attached Running"
  then show "run link h t = (Inr (), h, t)" by (simp add: run_def)
next
  assume "state h = Attached Stopped"
  then show "stop link h t = (Inr (), h, t)" by (simp add: stop_def)
next
  assume r: "run link h t = (Inr u, h1, t1)"
  show "state h1 = Attached Running"
  proof (cases "state h")
    case (Attached x)
    show ?thesis
    proof (cases x)
      case Stopped
      with Attached r
      have "transact link Tx_resume h t (\<lambda>_. ((), h\<lparr>state := Attached Running\<rparr>)) = (Inr u, h1, t1)"
        by (simp add: run_def)
      from transact_cases [OF this] show ?thesis by auto
    next
      case Running
      with Attached r show ?thesis by (auto simp: run_def)
    qed
  next
    case Unattached
    with r show ?thesis by (simp add: run_def)
  next
    case Detached
    with r show ?thesis by (simp add: run_def)
  qed
  then show "run link h1 t1 = (Inr (), h1, t1)" by (simp add: run_def)
next
  assume r: "stop link h t = (Inr u, h1, t1)"
  show "state h1 = Attached Stopped"
  proof (cases "state h")
    case (Attached x)
    show ?thesis
    proof (cases x)
      case Running
      with Attached r
      have "transact link Tx_halt h t (\<lambda>_. ((), h\<lparr>state := Attached Stopped\<rparr>)) = (Inr u, h1, t1)"
        by (simp add: stop_def)
      from transact_cases [OF this] show ?thesis by auto
    next
      case Stopped
      with Attached r show ?thesis by (auto simp: stop_def)
    qed
  next
    case Unattached
    with r show ?thesis by (simp add: stop_def)
  next
    case Detached
    with r show ?thesis by (simp add: stop_def)
  qed
  then show "stop link h1 t1 = (Inr (), h1, t1)" by (simp add: stop_def)
qed

theorem same_state_transition_noop_witness:
  "run steady_link
      \<lparr>impl = debug_bridge, handle_config = chipless_config, handle_binaries = (),
        handle_verbose = False, state = Attached Stopped\<rparr> []
     = (Inr (),
        \<lparr>impl = debug_bridge, handle_config = chipless_config, handle_binaries = (),
          handle_verbose = False, state = Attached Running\<rparr>, [Tx_resume])
   \<and> run steady_link
      \<lparr>impl = debug_bridge, handle_config = chipless_config, handle_binaries = (),
        handle_verbose = False, state = Attached Running\<rparr> [Tx_resume]
     = (Inr (),
        \<lparr>impl = debug_bridge, handle_config = chipless_config, handle_binaries = (),
          handle_verbose = False, state = Attached Running\<rparr>, [Tx_resume])
   \<and> stop steady_link
      \<lparr>impl = debug_bridge, handle_config = chipless_config, handle_binaries = (),
        handle_verbose = False, state = Attached Stopped\<rparr> []
     = (Inr (),
        \<lparr>impl = debug_bridge, handle_config = chipless_config, handle_binaries = (),
          handle_verbose = False, state = Attached Stopped\<rparr>, [])"
proof -
  let ?S = "\<lparr>impl = debug_bridge, handle_config = chipless_config, handle_binaries = (),
        handle_verbose = False, state = Attached Stopped\<rparr>"
  let ?R = "\<lparr>impl = debug_bridge, handle_config = chipless_config, handle_binaries = (),
        handle_verbose = False, state = Attached Running\<rparr>"
  have r: "run steady_link ?S [] = (Inr (), ?R, [Tx_resume])"
    by (simp add: run_def transact_def steady_link_def)
  note t = same_state_transition_noop [of ?S steady_link "[]" "()" ?R "[Tx_resume]"]
  from t r have again: "run steady_link ?R [Tx_resume] = (Inr (), ?R, [Tx_resume])"
    by blast
  have ss: "state ?S = Attached Stopped" by simp
  have halted: "stop steady_link ?S [] = (Inr (), ?S, [])"
    by (rule t [THEN conjunct2, THEN conjunct1, rule_format, OF ss])
  from r again halted show ?thesis by simp
qed

end
